theory Spec2Isabelle
  imports
    Main
    "HOL-Library.DAList"
    "HOL-Library.Char_ord"
    "HOL-Library.List_Lexorder"
    "HOL-Library.Word"
begin

section \<open>JavaScript objects used as dictionaries\<close>

text \<open>
  \<^verbatim>\<open>ChaincodeMockStub\<close> declares its stores as \<^verbatim>\<open>Map\<close>s but never calls a \<^verbatim>\<open>Map\<close>
  method to read or write them: every access is a property access
  (\<^verbatim>\<open>this.state[key] = value\<close>, \<^verbatim>\<open>delete this.state[key]\<close>, \<^verbatim>\<open>Object.keys(this.state)\<close>).
  A store is therefore an object with own properties and a prototype chain.

  The own properties are a list in creation order with unique names: \<open>prop_get\<close> looks
  an own property up (and finds nothing for a name that is only inherited), \<open>prop_set\<close>
  defines or updates an own property (an existing one keeps its place, a new one is
  appended), \<open>prop_delete\<close> removes one. What a property read \<^verbatim>\<open>obj[key]\<close> and an
  assignment \<^verbatim>\<open>obj[key] = v\<close> do on top of that, through the prototype chain, is in the
  next section.
\<close>

type_synonym 'v js_object = "(string, 'v) alist"

definition prop_get :: "'v js_object \<Rightarrow> string \<Rightarrow> 'v option" where
  "prop_get obj k = DAList.lookup obj k"

definition prop_set :: "'v js_object \<Rightarrow> string \<Rightarrow> 'v \<Rightarrow> 'v js_object" where
  "prop_set obj k v = DAList.update k v obj"

definition prop_delete :: "'v js_object \<Rightarrow> string \<Rightarrow> 'v js_object" where
  "prop_delete obj k = DAList.delete k obj"

definition new_Map :: "'v js_object" where
  "new_Map = DAList.empty"

text \<open>
  \<^verbatim>\<open>Object.keys\<close> lists the own property names: first the names that are array indices
  (canonical decimal numerals below \<open>2^32 - 1\<close>) in ascending numeric order, then all other
  names in creation order.
\<close>

definition is_digit :: "char \<Rightarrow> bool" where
  "is_digit c = (48 \<le> (of_char c :: nat) \<and> (of_char c :: nat) \<le> 57)"

definition decimal_value :: "string \<Rightarrow> nat" where
  "decimal_value s = foldl (\<lambda>n c. 10 * n + ((of_char c :: nat) - 48)) 0 s"

definition is_array_index :: "string \<Rightarrow> bool" where
  "is_array_index s =
     (s \<noteq> [] \<and> list_all is_digit s \<and> (length s = 1 \<or> hd s \<noteq> CHR ''0'')
      \<and> decimal_value s < 4294967295)"

definition own_names :: "'v js_object \<Rightarrow> string list" where
  "own_names obj = map fst (DAList.impl_of obj)"

definition Object_keys :: "'v js_object \<Rightarrow> string list" where
  "Object_keys obj =
     sort_key decimal_value (filter is_array_index (own_names obj))
     @ filter (\<lambda>k. \<not> is_array_index k) (own_names obj)"

section \<open>Values, inherited properties and assignment\<close>

type_synonym Buffer = "8 word list"

type_synonym StateMap = "Buffer js_object"

text \<open>
  What a property read on one of the stores can produce besides the values the stub
  stored there: \<^verbatim>\<open>undefined\<close>, a \<^verbatim>\<open>Buffer\<close>, a built-in function (named by the
  path that reaches it, as in \<open>Map.prototype.get\<close>), a number, or one of the prototype
  objects \<open>Map.prototype\<close> and \<open>Object.prototype\<close> themselves.
\<close>

datatype js_value =
    Undefined
  | Buf Buffer
  | Function string
  | Number int
  | Prototype string

text \<open>
  Truthiness, as \<^verbatim>\<open>!x\<close>, \<^verbatim>\<open>x || y\<close> and \<^verbatim>\<open>if (x)\<close> test it: \<^verbatim>\<open>undefined\<close> and
  \<open>0\<close> are falsy, every object and function is truthy.
\<close>

fun truthy :: "js_value \<Rightarrow> bool" where
  "truthy Undefined = False"
| "truthy (Number n) = (n \<noteq> 0)"
| "truthy (Buf b) = True"
| "truthy (Function f) = True"
| "truthy (Prototype p) = True"

text \<open>
  An assignment \<^verbatim>\<open>obj[key] = v\<close> to one of the stores, all of which begin with the
  prototype \<open>Map.prototype\<close>. An own property is updated. Otherwise \<^verbatim>\<open>size\<close> is an
  inherited accessor without a setter, and the assignment throws a \<^verbatim>\<open>TypeError\<close> (the
  class is strict-mode code); \<^verbatim>\<open>__proto__\<close> is an inherited accessor whose setter
  replaces the prototype of the object by \<open>v\<close> (every \<open>v\<close> the stub assigns is an
  object) and creates no property; every other name gets a new own property, also when
  a property of that name is inherited.
\<close>

datatype 'o assignment =
    Assigned 'o
  | Throws
  | Replaces_prototype

definition assign :: "'v js_object \<Rightarrow> string \<Rightarrow> 'v \<Rightarrow> 'v js_object assignment" where
  "assign obj k v =
     (if prop_get obj k \<noteq> None then Assigned (prop_set obj k v)
      else if k = ''size'' then Throws
      else if k = ''__proto__'' then Replaces_prototype
      else Assigned (prop_set obj k v))"

section \<open>Data model of the stub\<close>

text \<open>
  \<^verbatim>\<open>new MockProtoTimestamp()\<close> reads the clock; the class is not part of the sources.
  The reading is an input of every operation that takes one.
\<close>

type_synonym MockProtoTimestamp = nat

text \<open>
  The \<^verbatim>\<open>value\<close> of a record is the \<^verbatim>\<open>Buffer\<close> written, or, for a delete, whatever
  \<^verbatim>\<open>this.state[key]\<close> read.
\<close>

record KeyModification =
  is_delete :: bool
  km_value :: js_value
  timestamp :: MockProtoTimestamp
  tx_id :: "string option"

record KV =
  key :: string
  kv_value :: js_value

record ChaincodeResponse =
  status :: int
  message :: string
  payload :: Buffer

text \<open>
  \<open>Rejected\<close> is a rejected promise, \<open>Error\<close> and \<open>TypeError\<close> are thrown.
  \<open>UnknownKey\<close> is the spec's name for the failure of reading the history of a key that
  was never written. \<open>Unmodelled\<close> is not an outcome of the program: it marks a call
  whose outcome depends on objects this theory does not describe (see \<open>outside_model\<close>
  below).
\<close>

datatype error =
    Rejected string
  | Error string
  | TypeError
  | UnknownKey
  | Unmodelled

type_synonym 'a result = "error + 'a"

text \<open>
  A peer registered with \<^verbatim>\<open>mockPeerChaincode\<close> is any object with the \<^verbatim>\<open>MockStub\<close>
  interface. Of that interface \<^verbatim>\<open>invokeChaincode\<close> only calls \<^verbatim>\<open>mockInvoke\<close>, which
  answers and leaves the peer in a new state of its own.
\<close>

codatatype MockStub =
  MockStub (mockInvoke: "string option \<Rightarrow> Buffer list \<Rightarrow> ChaincodeResponse result \<times> MockStub")

datatype SignedProposal = SignedProposal "(string \<times> string) list"

record Timestamp =
  seconds :: int
  nanos :: int

text \<open>
  The fields of the class. \<^verbatim>\<open>txID\<close>, \<^verbatim>\<open>args\<close>, \<^verbatim>\<open>txTimestamp\<close> and
  \<^verbatim>\<open>signedProposal\<close> are declared without an initialiser, so they are \<^verbatim>\<open>undefined\<close>
  (\<open>None\<close>) until something assigns them. The five stores hold their own properties.

  The last three fields are not fields of the class. They are the part of the JavaScript
  realm that the property accesses of the stub reach:
  \<^item> \<open>Map_prototype\<close>: the own data properties of the object \<open>Map.prototype\<close>, which
    every store inherits: the built-in methods, and whatever the stub itself has written
    there (\<^verbatim>\<open>putPrivateData\<close> with the collection name \<^verbatim>\<open>__proto__\<close> does). The
    accessors \<^verbatim>\<open>size\<close> and \<^verbatim>\<open>__proto__\<close> are not listed; they are the same in every
    runtime and are written into the definitions.
  \<^item> \<open>Object_prototype\<close>: the own data properties of \<open>Object.prototype\<close>, the end of
    every chain. The stub never writes there.
  \<^item> \<open>outside_model\<close>: set by a call that replaces the prototype of an object or
    writes a property onto a built-in function or onto a \<^verbatim>\<open>Buffer\<close>. What is inherited
    after that depends on the properties of \<^verbatim>\<open>Buffer\<close>s, of peer objects and of
    function objects, which this theory does not describe: from then on the record is no
    description of the stub, and the theorems that depend on inherited properties assume
    the flag is not set.
\<close>

record ChaincodeMockStub =
  txTimestamp :: "Timestamp option"
  txID :: "string option"
  args :: "string list option"
  state :: StateMap
  transientMap :: "StateMap option"
  privateCollections :: "StateMap js_object"
  event :: "Buffer js_object"
  history :: "KeyModification list js_object"
  invokables :: "MockStub js_object"
  signedProposal :: "SignedProposal option"
  mspId :: string
  Map_prototype :: "js_value js_object"
  Object_prototype :: "js_value js_object"
  outside_model :: bool

text \<open>
  The built-in data properties of the two prototypes (ECMAScript 2015 and later), as a
  fresh realm has them. The theorems below that are stated for every stub hold for
  whatever these two objects contain.
\<close>

definition builtin_Map_prototype :: "js_value js_object" where
  "builtin_Map_prototype =
     foldl (\<lambda>obj n. prop_set obj n (Function (''Map.prototype.'' @ n)))
       (prop_set new_Map ''constructor'' (Function ''Map''))
       [''clear'', ''delete'', ''entries'', ''forEach'', ''get'', ''has'', ''keys'', ''set'',
        ''values'']"

definition builtin_Object_prototype :: "js_value js_object" where
  "builtin_Object_prototype =
     foldl (\<lambda>obj n. prop_set obj n (Function (''Object.prototype.'' @ n)))
       (prop_set new_Map ''constructor'' (Function ''Object''))
       [''__defineGetter__'', ''__defineSetter__'', ''__lookupGetter__'', ''__lookupSetter__'',
        ''hasOwnProperty'', ''isPrototypeOf'', ''propertyIsEnumerable'', ''toLocaleString'',
        ''toString'', ''valueOf'']"

definition new_ChaincodeMockStub :: ChaincodeMockStub where
  "new_ChaincodeMockStub =
     \<lparr> txTimestamp = None, txID = None, args = None, state = new_Map,
       transientMap = Some new_Map, privateCollections = new_Map, event = new_Map,
       history = new_Map, invokables = new_Map, signedProposal = None,
       mspId = ''dummymspId'',
       Map_prototype = builtin_Map_prototype,
       Object_prototype = builtin_Object_prototype,
       outside_model = False \<rparr>"

text \<open>
  What a read \<^verbatim>\<open>obj[key]\<close> gives on a store without an own property \<open>key\<close>: the
  accessor \<^verbatim>\<open>__proto__\<close> gives the prototype, the accessor \<^verbatim>\<open>size\<close> gives the number
  of \<^verbatim>\<open>Map\<close> entries, which is \<open>0\<close> since the stub never adds an entry, and any other
  name is looked up in \<open>Map.prototype\<close> and then in \<open>Object.prototype\<close>.
\<close>

definition inherited :: "ChaincodeMockStub \<Rightarrow> string \<Rightarrow> js_value" where
  "inherited s k =
     (if k = ''__proto__'' then Prototype ''Map.prototype''
      else if k = ''size'' then Number 0
      else case prop_get (Map_prototype s) k of
             Some v \<Rightarrow> v
           | None \<Rightarrow> (case prop_get (Object_prototype s) k of
                         Some v \<Rightarrow> v
                       | None \<Rightarrow> Undefined))"

text \<open>The read \<^verbatim>\<open>{}[key]\<close> on a fresh plain object, which inherits from \<open>Object.prototype\<close> only.\<close>

definition plain_object_get :: "ChaincodeMockStub \<Rightarrow> string \<Rightarrow> js_value" where
  "plain_object_get s k =
     (if k = ''__proto__'' then Prototype ''Object.prototype''
      else case prop_get (Object_prototype s) k of
             Some v \<Rightarrow> v
           | None \<Rightarrow> Undefined)"

text \<open>
  The read \<^verbatim>\<open>Map.prototype[key]\<close> on the prototype object itself. Its \<^verbatim>\<open>size\<close> getter
  throws a \<^verbatim>\<open>TypeError\<close> there, since \<open>Map.prototype\<close> is not a \<^verbatim>\<open>Map\<close>.
\<close>

definition Map_prototype_get :: "ChaincodeMockStub \<Rightarrow> string \<Rightarrow> js_value result" where
  "Map_prototype_get s k =
     (if k = ''size'' then Inl TypeError
      else if k = ''__proto__'' then Inr (Prototype ''Object.prototype'')
      else case prop_get (Map_prototype s) k of
             Some v \<Rightarrow> Inr v
           | None \<Rightarrow> (case prop_get (Object_prototype s) k of
                         Some v \<Rightarrow> Inr v
                       | None \<Rightarrow> Inr Undefined))"

section \<open>Transaction lifecycle\<close>

definition getTxID :: "ChaincodeMockStub \<Rightarrow> string option" where
  "getTxID s = txID s"

definition mockTransactionStart ::
  "ChaincodeMockStub \<Rightarrow> string \<Rightarrow> StateMap option \<Rightarrow> ChaincodeMockStub" where
  "mockTransactionStart s txid tm =
     s\<lparr> txID := Some txid,
        signedProposal := Some (SignedProposal []),
        txTimestamp := Some \<lparr> seconds = 0, nanos = 0 \<rparr>,
        transientMap := tm \<rparr>"

definition mockTransactionEnd :: "ChaincodeMockStub \<Rightarrow> string \<Rightarrow> ChaincodeMockStub" where
  "mockTransactionEnd s uuid =
     s\<lparr> signedProposal := None, txID := Some [], transientMap := Some new_Map \<rparr>"

text \<open>
  The guard of the writers is \<^verbatim>\<open>this.txID == ''\<close>. Loose equality of \<^verbatim>\<open>undefined\<close>
  with a string is false, so the guard holds only when \<^verbatim>\<open>txID\<close> is the empty string.
\<close>

definition txID_is_empty :: "ChaincodeMockStub \<Rightarrow> bool" where
  "txID_is_empty s = (txID s = Some [])"

section \<open>The state store and its history\<close>

text \<open>\<^verbatim>\<open>this.state[key]\<close>: the own property, or else what the store inherits.\<close>

definition getState :: "ChaincodeMockStub \<Rightarrow> string \<Rightarrow> js_value" where
  "getState s k =
     (case prop_get (state s) k of
        Some b \<Rightarrow> Buf b
      | None \<Rightarrow> inherited s k)"

text \<open>
  \<^verbatim>\<open>this.history[key]\<close>: the key's own log of records, or else what the store inherits,
  which is never an array.
\<close>

datatype history_read =
    Records "KeyModification list"
  | Not_records js_value

definition history_get :: "ChaincodeMockStub \<Rightarrow> string \<Rightarrow> history_read" where
  "history_get s k =
     (case prop_get (history s) k of
        Some h \<Rightarrow> Records h
      | None \<Rightarrow> Not_records (inherited s k))"

fun history_truthy :: "history_read \<Rightarrow> bool" where
  "history_truthy (Records h) = True"
| "history_truthy (Not_records x) = truthy x"

definition putState_msg :: string where
  "putState_msg = ''Cannot putState without a transaction - call stub.mockTransactionStart()!''"

text \<open>
  \<^verbatim>\<open>this.history[key].push(..)\<close>: appends to the key's own log. On anything else the
  read gives (\<^verbatim>\<open>undefined\<close>, \<open>0\<close>, a function, a \<^verbatim>\<open>Buffer\<close>, \<open>Map.prototype\<close>)
  there is no callable \<^verbatim>\<open>push\<close>, and the call throws a \<^verbatim>\<open>TypeError\<close>.
\<close>

definition push_record ::
  "ChaincodeMockStub \<Rightarrow> string \<Rightarrow> KeyModification \<Rightarrow> unit result \<times> ChaincodeMockStub" where
  "push_record s k r =
     (case history_get s k of
        Records h \<Rightarrow> (Inr (), s\<lparr> history := prop_set (history s) k (h @ [r]) \<rparr>)
      | Not_records x \<Rightarrow> (Inl TypeError, s))"

text \<open>
  \<^verbatim>\<open>putState\<close>, statement by statement: the guard; \<^verbatim>\<open>this.state[key] = value\<close>;
  \<^verbatim>\<open>if (!this.history[key]) this.history[key] = []\<close>; the \<^verbatim>\<open>push\<close>. A statement that
  throws ends the call and leaves what the earlier statements did.
\<close>

definition putState ::
  "MockProtoTimestamp \<Rightarrow> ChaincodeMockStub \<Rightarrow> string \<Rightarrow> Buffer \<Rightarrow> unit result \<times> ChaincodeMockStub"
  where
  "putState now s k v =
     (if txID_is_empty s then (Inl (Rejected putState_msg), s)
      else
        case assign (state s) k v of
          Throws \<Rightarrow> (Inl TypeError, s)
        | a \<Rightarrow>
            let s1 = (case a of
                        Assigned st \<Rightarrow> s\<lparr> state := st \<rparr>
                      | _ \<Rightarrow> s\<lparr> outside_model := True \<rparr>);
                r = \<lparr> is_delete = False, km_value = Buf v, timestamp = now, tx_id = txID s1 \<rparr>
            in if history_truthy (history_get s1 k) then push_record s1 k r
               else
                 (case assign (history s1) k [] of
                    Throws \<Rightarrow> (Inl TypeError, s1)
                  | Assigned h \<Rightarrow> push_record (s1\<lparr> history := h \<rparr>) k r
                  | Replaces_prototype \<Rightarrow> (Inl Unmodelled, s1\<lparr> outside_model := True \<rparr>)))"

text \<open>
  \<^verbatim>\<open>deleteState\<close> has no guard and does not create a missing log: on a key without an
  own log the \<^verbatim>\<open>push\<close> throws before the property is deleted.
\<close>

definition deleteState ::
  "MockProtoTimestamp \<Rightarrow> ChaincodeMockStub \<Rightarrow> string \<Rightarrow> unit result \<times> ChaincodeMockStub" where
  "deleteState now s k =
     (let v = getState s k in
      case push_record s k \<lparr> is_delete = True, km_value = v, timestamp = now, tx_id = txID s \<rparr> of
        (Inl e, s1) \<Rightarrow> (Inl e, s1)
      | (Inr u, s1) \<Rightarrow> (Inr (), s1\<lparr> state := prop_delete (state s1) k \<rparr>))"

section \<open>Arguments\<close>

definition getArgs :: "ChaincodeMockStub \<Rightarrow> string list option" where
  "getArgs s = args s"

definition getStringArgs :: "ChaincodeMockStub \<Rightarrow> string list option" where
  "getStringArgs s = args s"

record FunctionAndParameters =
  fcn :: string
  params :: "string list"

text \<open>
  \<^verbatim>\<open>params\<close> is the array \<^verbatim>\<open>this.args\<close> itself, not a copy: \<^verbatim>\<open>params.splice(0, 1)\<close>
  removes the first element of the stored argument list. Reading \<^verbatim>\<open>params.length\<close>
  when no argument list was ever stored throws a \<^verbatim>\<open>TypeError\<close>.
\<close>

definition getFunctionAndParameters ::
  "ChaincodeMockStub \<Rightarrow> FunctionAndParameters result \<times> ChaincodeMockStub" where
  "getFunctionAndParameters s =
     (case getStringArgs s of
        None \<Rightarrow> (Inl TypeError, s)
      | Some ps \<Rightarrow>
          (if length ps \<ge> 1
           then (Inr \<lparr> fcn = hd ps, params = tl ps \<rparr>, s\<lparr> args := Some (tl ps) \<rparr>)
           else (Inr \<lparr> fcn = [], params = ps \<rparr>, s)))"

section \<open>Peer chaincodes\<close>

text \<open>\<^verbatim>\<open>this.invokables[invokableChaincodeName] = otherStub\<close>.\<close>

definition mockPeerChaincode ::
  "ChaincodeMockStub \<Rightarrow> string \<Rightarrow> MockStub \<Rightarrow> unit result \<times> ChaincodeMockStub" where
  "mockPeerChaincode s invokableChaincodeName otherStub =
     (case assign (invokables s) invokableChaincodeName otherStub of
        Assigned i \<Rightarrow> (Inr (), s\<lparr> invokables := i \<rparr>)
      | Throws \<Rightarrow> (Inl TypeError, s)
      | Replaces_prototype \<Rightarrow> (Inr (), s\<lparr> outside_model := True \<rparr>))"

definition not_found_msg :: "string \<Rightarrow> string" where
  "not_found_msg chaincodeName =
     ''Chaincode '' @ chaincodeName
       @ '' could not be found. Please create this using mockPeerChaincode.''"

definition composite_name :: "string \<Rightarrow> string \<Rightarrow> string" where
  "composite_name chaincodeName channel =
     (if channel \<noteq> [] then chaincodeName @ ''/'' @ channel else chaincodeName)"

text \<open>
  \<^verbatim>\<open>this.invokables[chaincodeName]\<close> is a registered peer, or else what the registry
  inherits. A falsy value gives the not-found error. An inherited truthy value (a
  function, a \<^verbatim>\<open>Buffer\<close>, \<open>Map.prototype\<close>) passes the test \<^verbatim>\<open>!otherStub\<close> and has no
  callable \<^verbatim>\<open>mockInvoke\<close>: the call throws a \<^verbatim>\<open>TypeError\<close>.

  The peer is a separate object: its \<^verbatim>\<open>mockInvoke\<close> changes the peer, which the
  registry keeps under the same name, and nothing else of the calling stub. (A peer
  registered under two names counts as two peers; a stub registered as its own peer is
  outside the model.)
\<close>

definition invokeChaincode ::
  "ChaincodeMockStub \<Rightarrow> string \<Rightarrow> Buffer list \<Rightarrow> string
     \<Rightarrow> ChaincodeResponse result \<times> ChaincodeMockStub" where
  "invokeChaincode s chaincodeName as channel =
     (let cn = composite_name chaincodeName channel in
      case prop_get (invokables s) cn of
        None \<Rightarrow>
          (if \<not> truthy (inherited s cn) then (Inl (Error (not_found_msg cn)), s)
           else (Inl TypeError, s))
      | Some otherStub \<Rightarrow>
          (case mockInvoke otherStub (txID s) as of
             (res, otherStub') \<Rightarrow>
               (res, s\<lparr> invokables := prop_set (invokables s) cn otherStub' \<rparr>)))"

section \<open>Range scans\<close>

text \<open>
  Modelled from the spec: \<^verbatim>\<open>Helpers.strcmp\<close> (\<^verbatim>\<open>./utils/helpers\<close>) is not part of the
  sources. The spec fixes the key order as "byte-wise lexicographic comparison of key
  strings"; the comparison returns a negative number, zero or a positive number.
\<close>

fun strcmp :: "string \<Rightarrow> string \<Rightarrow> int" where
  "strcmp [] [] = 0"
| "strcmp [] (b # bs) = - 1"
| "strcmp (a # as) [] = 1"
| "strcmp (a # as) (b # bs) =
     (if (of_char a :: nat) < of_char b then - 1
      else if (of_char b :: nat) < of_char a then 1
      else strcmp as bs)"

text \<open>
  Modelled from the spec: the class \<^verbatim>\<open>MockStateQueryIterator\<close> is not part of the
  sources. By the spec it is a finite sequence over the snapshot it is built from, read
  front to back.
\<close>

datatype MockStateQueryIterator = MockStateQueryIterator (items: "KV list")

definition in_range :: "string \<Rightarrow> string \<Rightarrow> string \<Rightarrow> bool" where
  "in_range startKey endKey k =
     (let comp1 = strcmp k startKey; comp2 = strcmp k endKey
      in (comp1 \<ge> 0 \<and> comp2 \<le> 0) \<or> (startKey = [] \<and> endKey = []))"

text \<open>
  \<^verbatim>\<open>Object.keys(this.state)\<close>, the filter, and for every key that passes the pair of the
  key and \<^verbatim>\<open>this.state[k]\<close>.
\<close>

definition getStateByRange ::
  "ChaincodeMockStub \<Rightarrow> string \<Rightarrow> string \<Rightarrow> MockStateQueryIterator" where
  "getStateByRange s startKey endKey =
     MockStateQueryIterator
       (map (\<lambda>k. \<lparr> key = k, kv_value = getState s k \<rparr>)
          (filter (in_range startKey endKey) (Object_keys (state s))))"

text \<open>
  \<^verbatim>\<open>CompositeKeys\<close> (\<^verbatim>\<open>./CompositeKeys\<close>) is not part of the sources: its
  \<^verbatim>\<open>createCompositeKey\<close>, which may throw, and its constant \<^verbatim>\<open>MAX_UNICODE_RUNE_VALUE\<close>
  are parameters.
\<close>

record CompositeKeys =
  createCompositeKey :: "string \<Rightarrow> string list \<Rightarrow> string result"
  MAX_UNICODE_RUNE_VALUE :: string

definition getStateByPartialCompositeKey ::
  "CompositeKeys \<Rightarrow> ChaincodeMockStub \<Rightarrow> string \<Rightarrow> string list
     \<Rightarrow> MockStateQueryIterator result" where
  "getStateByPartialCompositeKey ck s objectType attributes =
     (case createCompositeKey ck objectType attributes of
        Inl e \<Rightarrow> Inl e
      | Inr partialCompositeKey \<Rightarrow>
          Inr (getStateByRange s partialCompositeKey
                 (partialCompositeKey @ MAX_UNICODE_RUNE_VALUE ck)))"

section \<open>History queries\<close>




section \<open>Events, creator, proposal and timestamp\<close>

definition setEvent_msg :: string where
  "setEvent_msg = ''Cannot setEvent without a transactions - call stub.mockTransactionStart()!''"

definition setEvent ::
  "ChaincodeMockStub \<Rightarrow> string \<Rightarrow> Buffer \<Rightarrow> unit result \<times> ChaincodeMockStub" where
  "setEvent s name p =
     (if txID_is_empty s then (Inl (Rejected setEvent_msg), s)
      else case assign (event s) name p of
             Assigned e \<Rightarrow> (Inr (), s\<lparr> event := e \<rparr>)
           | Throws \<Rightarrow> (Inl TypeError, s)
           | Replaces_prototype \<Rightarrow> (Inr (), s\<lparr> outside_model := True \<rparr>))"

definition getEvent :: "ChaincodeMockStub \<Rightarrow> string \<Rightarrow> js_value" where
  "getEvent s name =
     (case prop_get (event s) name of
        Some b \<Rightarrow> Buf b
      | None \<Rightarrow> inherited s name)"

definition setCreator :: "ChaincodeMockStub \<Rightarrow> string \<Rightarrow> ChaincodeMockStub" where
  "setCreator s m = s\<lparr> mspId := m \<rparr>"

definition setSignedProposal :: "ChaincodeMockStub \<Rightarrow> SignedProposal \<Rightarrow> ChaincodeMockStub" where
  "setSignedProposal s sp = s\<lparr> signedProposal := Some sp \<rparr>"

definition setTxTimestamp :: "ChaincodeMockStub \<Rightarrow> Timestamp \<Rightarrow> ChaincodeMockStub" where
  "setTxTimestamp s t = s\<lparr> txTimestamp := Some t \<rparr>"

section \<open>Private data collections\<close>

text \<open>
  \<^verbatim>\<open>(this.privateCollections[collection] || {})[key]\<close>. The first read gives a
  collection the stub created, or else what \<^verbatim>\<open>privateCollections\<close> inherits under that
  name: for \<^verbatim>\<open>__proto__\<close> the object \<open>Map.prototype\<close>, whose properties are then read;
  a falsy value, replaced by a fresh plain object; or a built-in function or a
  \<^verbatim>\<open>Buffer\<close>, whose properties this theory does not describe.
\<close>

definition getPrivateData ::
  "ChaincodeMockStub \<Rightarrow> string \<Rightarrow> string \<Rightarrow> js_value result" where
  "getPrivateData s collection k =
     (case prop_get (privateCollections s) collection of
        Some c \<Rightarrow>
          Inr (case prop_get c k of
                 Some b \<Rightarrow> Buf b
               | None \<Rightarrow> inherited s k)
      | None \<Rightarrow>
          if collection = ''__proto__'' then Map_prototype_get s k
          else if \<not> truthy (inherited s collection) then Inr (plain_object_get s k)
          else Inl Unmodelled)"

text \<open>
  \<^verbatim>\<open>this.privateCollections[collection][key] = value\<close> on a collection of the stub.
\<close>

definition store_private ::
  "ChaincodeMockStub \<Rightarrow> string \<Rightarrow> StateMap \<Rightarrow> string \<Rightarrow> Buffer
     \<Rightarrow> unit result \<times> ChaincodeMockStub" where
  "store_private s collection c k v =
     (case assign c k v of
        Assigned c' \<Rightarrow>
          (Inr (), s\<lparr> privateCollections := prop_set (privateCollections s) collection c' \<rparr>)
      | Throws \<Rightarrow> (Inl TypeError, s)
      | Replaces_prototype \<Rightarrow> (Inr (), s\<lparr> outside_model := True \<rparr>))"

text \<open>
  \<^verbatim>\<open>putPrivateData\<close>: the guard; a new collection when the read
  \<^verbatim>\<open>this.privateCollections[collection]\<close> is falsy; the assignment on what that read
  gives. For the collection name \<^verbatim>\<open>__proto__\<close> the read gives \<open>Map.prototype\<close>, no
  collection is created, and the value is assigned on \<open>Map.prototype\<close> itself (where
  \<^verbatim>\<open>size\<close> has no setter and \<^verbatim>\<open>__proto__\<close> replaces the prototype). For a name that
  reads as a built-in function or a \<^verbatim>\<open>Buffer\<close> the value is assigned on that object.
\<close>

definition putPrivateData ::
  "ChaincodeMockStub \<Rightarrow> string \<Rightarrow> string \<Rightarrow> Buffer \<Rightarrow> unit result \<times> ChaincodeMockStub" where
  "putPrivateData s collection k v =
     (if txID_is_empty s then (Inl (Rejected putState_msg), s)
      else
        case prop_get (privateCollections s) collection of
          Some c \<Rightarrow> store_private s collection c k v
        | None \<Rightarrow>
            if collection = ''__proto__'' then
              (if k = ''size'' then (Inl TypeError, s)
               else if k = ''__proto__'' then (Inr (), s\<lparr> outside_model := True \<rparr>)
               else (Inr (), s\<lparr> Map_prototype := prop_set (Map_prototype s) k (Buf v) \<rparr>))
            else if truthy (inherited s collection)
              then (Inl Unmodelled, s\<lparr> outside_model := True \<rparr>)
            else
              (case assign (privateCollections s) collection new_Map of
                 Assigned pc \<Rightarrow>
                   store_private (s\<lparr> privateCollections := pc \<rparr>) collection new_Map k v
               | Throws \<Rightarrow> (Inl TypeError, s)
               | Replaces_prototype \<Rightarrow> (Inl Unmodelled, s\<lparr> outside_model := True \<rparr>)))"

text \<open>
  \<^verbatim>\<open>deletePrivateData\<close> reads the value as \<^verbatim>\<open>getPrivateData\<close> does and, when it is
  truthy, calls \<^verbatim>\<open>this.privateCollections[collection].delete(key)\<close>. On a collection
  of the stub that is the \<^verbatim>\<open>Map\<close> method, unless a property \<^verbatim>\<open>delete\<close> of the
  collection or of \<open>Map.prototype\<close> hides it. The method removes a \<^verbatim>\<open>Map\<close> entry, and
  the collections hold their data as properties, never as entries: it finds nothing to
  remove and every property stays. On anything else there is no callable \<^verbatim>\<open>delete\<close>
  for that receiver, and the call throws a \<^verbatim>\<open>TypeError\<close>.
\<close>

definition deletePrivateData ::
  "ChaincodeMockStub \<Rightarrow> string \<Rightarrow> string \<Rightarrow> unit result \<times> ChaincodeMockStub" where
  "deletePrivateData s collection k =
     (case getPrivateData s collection k of
        Inl e \<Rightarrow> (Inl e, s)
      | Inr v \<Rightarrow>
          if \<not> truthy v then (Inr (), s)
          else
            (case prop_get (privateCollections s) collection of
               None \<Rightarrow> (Inl TypeError, s)
             | Some c \<Rightarrow>
                 (case (case prop_get c ''delete'' of
                          Some b \<Rightarrow> Buf b
                        | None \<Rightarrow> inherited s ''delete'') of
                    Function f \<Rightarrow>
                      if f = ''Map.prototype.delete'' then (Inr (), s)
                      else (Inl Unmodelled, s\<lparr> outside_model := True \<rparr>)
                  | _ \<Rightarrow> (Inl TypeError, s))))"

section \<open>Sequences of calls\<close>

text \<open>
  The calls a test driver or a chaincode can make on the stub that change it. A call that
  rejects or throws leaves the stub as it was at that point, and the caller goes on.
\<close>

datatype call =
    MockTransactionStart string "StateMap option"
  | MockTransactionEnd string
  | MockPeerChaincode string MockStub
  | InvokeChaincode string "Buffer list" string
  | GetFunctionAndParameters
  | PutState MockProtoTimestamp string Buffer
  | DeleteState MockProtoTimestamp string
  | SetEvent string Buffer
  | SetCreator string
  | SetSignedProposal SignedProposal
  | SetTxTimestamp Timestamp
  | PutPrivateData string string Buffer
  | DeletePrivateData string string

fun perform :: "call \<Rightarrow> ChaincodeMockStub \<Rightarrow> ChaincodeMockStub" where
  "perform (MockTransactionStart txid tm) s = mockTransactionStart s txid tm"
| "perform (MockTransactionEnd uuid) s = mockTransactionEnd s uuid"
| "perform (MockPeerChaincode n p) s = snd (mockPeerChaincode s n p)"
| "perform (InvokeChaincode n as ch) s = snd (invokeChaincode s n as ch)"
| "perform GetFunctionAndParameters s = snd (getFunctionAndParameters s)"
| "perform (PutState now k v) s = snd (putState now s k v)"
| "perform (DeleteState now k) s = snd (deleteState now s k)"
| "perform (SetEvent n p) s = snd (setEvent s n p)"
| "perform (SetCreator m) s = setCreator s m"
| "perform (SetSignedProposal sp) s = setSignedProposal s sp"
| "perform (SetTxTimestamp t) s = setTxTimestamp s t"
| "perform (PutPrivateData c k v) s = snd (putPrivateData s c k v)"
| "perform (DeletePrivateData c k) s = snd (deletePrivateData s c k)"

fun run :: "call list \<Rightarrow> ChaincodeMockStub \<Rightarrow> ChaincodeMockStub" where
  "run [] s = s"
| "run (c # cs) s = run cs (perform c s)"

text \<open>Which calls write a given key of the state store or a given private collection.\<close>

fun is_putState_of :: "string \<Rightarrow> call \<Rightarrow> bool" where
  "is_putState_of k (PutState now k' v) = (k' = k)"
| "is_putState_of k _ = False"




text \<open>
  Modelled from the spec: an instance of \<^verbatim>\<open>CompositeKeys\<close> for the examples. By the
  spec a composite key is "an object-type token and an ordered sequence of attribute
  strings, joined with a reserved low-value delimiter byte and terminated", creating one
  "fails with InvalidKeyComponent if objectType or any attribute contains the reserved
  delimiter byte or is empty", and the upper sentinel is "a maximum-Unicode-codepoint
  suffix". Here the delimiter is the byte \<open>0x00\<close>, which also starts the key, and the
  sentinel is the code point \<open>U+10FFFF\<close> in UTF-8.
\<close>

definition example_createCompositeKey :: "string \<Rightarrow> string list \<Rightarrow> string result" where
  "example_createCompositeKey objectType attributes =
     (if list_ex (\<lambda>a. a = [] \<or> CHR 0x00 \<in> set a) (objectType # attributes)
      then Inl (Error ''InvalidKeyComponent'')
      else Inr (CHR 0x00 # objectType @ [CHR 0x00]
                  @ concat (map (\<lambda>a. a @ [CHR 0x00]) attributes)))"

definition example_CompositeKeys :: CompositeKeys where
  "example_CompositeKeys =
     \<lparr> createCompositeKey = example_createCompositeKey,
       MAX_UNICODE_RUNE_VALUE = [CHR 0xF4, CHR 0x8F, CHR 0xBF, CHR 0xBF] \<rparr>"

section \<open>Properties\<close>

lemma prop_get_set: "prop_get (prop_set obj k v) k' = (if k' = k then Some v else prop_get obj k')"
  by (simp add: prop_get_def prop_set_def DAList.lookup_update)

lemma prop_get_delete: "prop_get (prop_delete obj k) k' = (if k' = k then None else prop_get obj k')"
  by (simp add: prop_get_def prop_delete_def)

lemma prop_get_new_Map: "prop_get new_Map k = None"
  by (simp add: prop_get_def new_Map_def)

lemma prop_set_twice: "prop_set (prop_set obj k a) k b = prop_set obj k b"
  by (simp add: prop_set_def)

subsection \<open>Own property names\<close>

lemma own_names_new_Map: "own_names new_Map = []"
  by (simp add: own_names_def new_Map_def DAList.empty.rep_eq)

lemma AList_update_keys:
  "map fst (AList.update k v al) =
     (if k \<in> set (map fst al) then map fst al else map fst al @ [k])"
  by (induction al) auto

lemma own_names_prop_set:
  "own_names (prop_set obj k v) =
     (if k \<in> set (own_names obj) then own_names obj else own_names obj @ [k])"
  unfolding own_names_def prop_set_def DAList.update.rep_eq by (rule AList_update_keys)

lemma own_names_prop_delete: "own_names (prop_delete obj k) = removeAll k (own_names obj)"
  by (simp add: own_names_def prop_delete_def DAList.delete.rep_eq AList.delete_keys)

lemma distinct_own_names: "distinct (own_names obj)"
  by (simp add: own_names_def)

lemma set_own_names: "set (own_names obj) = {k. prop_get obj k \<noteq> None}"
  by (auto simp: own_names_def prop_get_def DAList.lookup.rep_eq map_of_eq_None_iff)

lemma set_Object_keys: "set (Object_keys obj) = {k. prop_get obj k \<noteq> None}"
  by (auto simp: Object_keys_def set_own_names)

lemma distinct_Object_keys: "distinct (Object_keys obj)"
  by (auto simp: Object_keys_def distinct_own_names)

subsection \<open>The key order\<close>

lemma strcmp_le: "strcmp a b \<le> 0 \<longleftrightarrow> a \<le> b"
  by (induction a b rule: strcmp.induct) (auto simp: less_char_def [symmetric])

lemma strcmp_ge: "strcmp a b \<ge> 0 \<longleftrightarrow> b \<le> a"
  by (induction a b rule: strcmp.induct) (auto simp: less_char_def [symmetric])

lemma in_range_iff:
  "in_range startKey endKey k \<longleftrightarrow>
     (startKey \<le> k \<and> k \<le> endKey) \<or> (startKey = [] \<and> endKey = [])"
  by (simp add: in_range_def Let_def strcmp_le strcmp_ge)

lemma prefix_range: "(p \<le> k \<and> k \<le> p @ m) \<longleftrightarrow> (\<exists>r. k = p @ r \<and> r \<le> m)"
  for p k m :: string
proof (induction p arbitrary: k)
  case Nil
  then show ?case by simp
next
  case (Cons a p)
  show ?case
  proof (cases k)
    case Nil
    then show ?thesis by simp
  next
    case (Cons b k')
    then show ?thesis using Cons.IH [of k'] by auto
  qed
qed

subsection \<open>Inherited properties\<close>

lemma inherited_cong:
  "Map_prototype s' = Map_prototype s \<Longrightarrow> Object_prototype s' = Object_prototype s
   \<Longrightarrow> inherited s' k = inherited s k"
  by (simp add: inherited_def split: option.splits)

lemma inherited_update:
  "inherited (s\<lparr> state := st \<rparr>) k = inherited s k"
  "inherited (s\<lparr> history := h \<rparr>) k = inherited s k"
  "inherited (s\<lparr> privateCollections := pc \<rparr>) k = inherited s k"
  "inherited (s\<lparr> invokables := i \<rparr>) k = inherited s k"
  "inherited (s\<lparr> event := e \<rparr>) k = inherited s k"
  "inherited (s\<lparr> outside_model := b \<rparr>) k = inherited s k"
  "inherited (s\<lparr> args := a \<rparr>) k = inherited s k"
  by (rule inherited_cong; simp)+

lemma inherited_Undefined_plain:
  "inherited s k = Undefined \<Longrightarrow> k \<noteq> ''size'' \<and> k \<noteq> ''__proto__''"
  by (auto simp: inherited_def)

lemma inherited_falsy_not_proto: "\<not> truthy (inherited s k) \<Longrightarrow> k \<noteq> ''__proto__''"
  by (auto simp: inherited_def)

lemma builtin_Map_prototype_get:
  "prop_get builtin_Map_prototype k =
     (if k = ''constructor'' then Some (Function ''Map'')
      else if k \<in> set [''clear'', ''delete'', ''entries'', ''forEach'', ''get'', ''has'', ''keys'',
                        ''set'', ''values'']
      then Some (Function (''Map.prototype.'' @ k)) else None)"
  by (simp add: builtin_Map_prototype_def prop_get_set prop_get_new_Map)

lemma builtin_Object_prototype_get:
  "prop_get builtin_Object_prototype k =
     (if k = ''constructor'' then Some (Function ''Object'')
      else if k \<in> set [''__defineGetter__'', ''__defineSetter__'', ''__lookupGetter__'',
                        ''__lookupSetter__'', ''hasOwnProperty'', ''isPrototypeOf'',
                        ''propertyIsEnumerable'', ''toLocaleString'', ''toString'', ''valueOf'']
      then Some (Function (''Object.prototype.'' @ k)) else None)"
  by (simp add: builtin_Object_prototype_def prop_get_set prop_get_new_Map)

lemma inherited_new:
  "inherited new_ChaincodeMockStub ''k'' = Undefined"
  "inherited new_ChaincodeMockStub ''constructor'' = Function ''Map''"
  "inherited new_ChaincodeMockStub ''toString'' = Function ''Object.prototype.toString''"
  by (simp_all add: inherited_def new_ChaincodeMockStub_def builtin_Map_prototype_get
        builtin_Object_prototype_get)

subsection \<open>putState\<close>

lemma assign_plain:
  "k \<noteq> ''size'' \<Longrightarrow> k \<noteq> ''__proto__'' \<Longrightarrow> assign obj k v = Assigned (prop_set obj k v)"
  by (simp add: assign_def)

lemma assign_own: "prop_get obj k = Some x \<Longrightarrow> assign obj k v = Assigned (prop_set obj k v)"
  by (simp add: assign_def)

lemma putState_rejected: "txID_is_empty s \<Longrightarrow> putState now s k v = (Inl (Rejected putState_msg), s)"
  by (simp add: putState_def)

lemma putState_plain:
  assumes "\<not> txID_is_empty s" and "inherited s k = Undefined"
  shows "putState now s k v =
     (Inr (), s\<lparr> state := prop_set (state s) k v,
                history := prop_set (history s) k
                  ((case prop_get (history s) k of None \<Rightarrow> [] | Some h \<Rightarrow> h)
                   @ [\<lparr> is_delete = False, km_value = Buf v, timestamp = now,
                         tx_id = txID s \<rparr>]) \<rparr>)"
proof -
  from assms(2) have k: "k \<noteq> ''size''" "k \<noteq> ''__proto__''"
    using inherited_Undefined_plain by blast+
  have i: "inherited (s\<lparr> state := prop_set (state s) k v \<rparr>) k = Undefined"
    using assms(2) by (simp add: inherited_update)
  show ?thesis
  proof (cases "prop_get (history s) k")
    case None
    then show ?thesis
      using assms(1) k i
      by (simp add: putState_def assign_plain history_get_def push_record_def prop_get_set
            inherited_update prop_set_twice Let_def)
  next
    case (Some h)
    then show ?thesis
      using assms(1) k
      by (simp add: putState_def assign_plain history_get_def push_record_def Let_def)
  qed
qed

subsection \<open>What each call leaves alone\<close>

lemma push_record_frame:
  "state (snd (push_record s k r)) = state s"
  "privateCollections (snd (push_record s k r)) = privateCollections s"
  "Map_prototype (snd (push_record s k r)) = Map_prototype s"
  "Object_prototype (snd (push_record s k r)) = Object_prototype s"
  "txID (snd (push_record s k r)) = txID s"
  "outside_model (snd (push_record s k r)) = outside_model s"
  "k' \<noteq> k \<Longrightarrow> prop_get (history (snd (push_record s k r))) k' = prop_get (history s) k'"
  "prop_get (history s) k = None \<Longrightarrow> push_record s k r = (Inl TypeError, s)"
  by (simp_all add: push_record_def history_get_def prop_get_set split: option.splits)

lemma assign_AssignedD: "assign obj k v = Assigned x \<Longrightarrow> x = prop_set obj k v"
  by (simp add: assign_def split: if_splits)

lemma putState_frame:
  "privateCollections (snd (putState now s k v)) = privateCollections s"
  "Map_prototype (snd (putState now s k v)) = Map_prototype s"
  "Object_prototype (snd (putState now s k v)) = Object_prototype s"
  "txID (snd (putState now s k v)) = txID s"
  "outside_model s \<Longrightarrow> outside_model (snd (putState now s k v))"
  "k' \<noteq> k \<Longrightarrow> prop_get (state (snd (putState now s k v))) k' = prop_get (state s) k'"
  "k' \<noteq> k \<Longrightarrow> prop_get (history (snd (putState now s k v))) k' = prop_get (history s) k'"
  by (auto simp: putState_def Let_def push_record_frame prop_get_set
        split: assignment.splits dest!: assign_AssignedD)

lemma deleteState_frame:
  "privateCollections (snd (deleteState now s k)) = privateCollections s"
  "Map_prototype (snd (deleteState now s k)) = Map_prototype s"
  "Object_prototype (snd (deleteState now s k)) = Object_prototype s"
  "txID (snd (deleteState now s k)) = txID s"
  "outside_model (snd (deleteState now s k)) = outside_model s"
  "k' \<noteq> k \<Longrightarrow> prop_get (state (snd (deleteState now s k))) k' = prop_get (state s) k'"
  "k' \<noteq> k \<Longrightarrow> prop_get (history (snd (deleteState now s k))) k' = prop_get (history s) k'"
  "prop_get (history s) k = None \<Longrightarrow> deleteState now s k = (Inl TypeError, s)"
  by (simp_all add: deleteState_def Let_def push_record_def history_get_def prop_get_set
        prop_get_delete split: option.splits)

lemma store_private_frame:
  "state (snd (store_private s c m k v)) = state s"
  "history (snd (store_private s c m k v)) = history s"
  "Map_prototype (snd (store_private s c m k v)) = Map_prototype s"
  "Object_prototype (snd (store_private s c m k v)) = Object_prototype s"
  "outside_model s \<Longrightarrow> outside_model (snd (store_private s c m k v))"
  "c' \<noteq> c \<Longrightarrow> prop_get (privateCollections (snd (store_private s c m k v))) c'
     = prop_get (privateCollections s) c'"
  by (auto simp: store_private_def prop_get_set split: assignment.splits)

lemma putPrivateData_frame:
  "state (snd (putPrivateData s c k v)) = state s"
  "history (snd (putPrivateData s c k v)) = history s"
  "Object_prototype (snd (putPrivateData s c k v)) = Object_prototype s"
  "outside_model s \<Longrightarrow> outside_model (snd (putPrivateData s c k v))"
  "c \<noteq> ''__proto__'' \<Longrightarrow> Map_prototype (snd (putPrivateData s c k v)) = Map_prototype s"
  "c' \<noteq> c \<Longrightarrow> prop_get (privateCollections (snd (putPrivateData s c k v))) c'
     = prop_get (privateCollections s) c'"
  by (auto simp: putPrivateData_def store_private_frame prop_get_set
        split: option.splits assignment.splits dest!: assign_AssignedD)

lemma deletePrivateData_frame:
  "state (snd (deletePrivateData s c k)) = state s"
  "history (snd (deletePrivateData s c k)) = history s"
  "privateCollections (snd (deletePrivateData s c k)) = privateCollections s"
  "Map_prototype (snd (deletePrivateData s c k)) = Map_prototype s"
  "Object_prototype (snd (deletePrivateData s c k)) = Object_prototype s"
  "outside_model s \<Longrightarrow> outside_model (snd (deletePrivateData s c k))"
  by (simp_all add: deletePrivateData_def split: sum.splits option.splits js_value.splits)

lemma invokeChaincode_frame:
  "state (snd (invokeChaincode s n as ch)) = state s"
  "history (snd (invokeChaincode s n as ch)) = history s"
  "privateCollections (snd (invokeChaincode s n as ch)) = privateCollections s"
  "Map_prototype (snd (invokeChaincode s n as ch)) = Map_prototype s"
  "Object_prototype (snd (invokeChaincode s n as ch)) = Object_prototype s"
  "outside_model (snd (invokeChaincode s n as ch)) = outside_model s"
  "txID (snd (invokeChaincode s n as ch)) = txID s"
  by (simp_all add: invokeChaincode_def Let_def split: option.splits prod.splits)

lemma mockPeerChaincode_frame:
  "state (snd (mockPeerChaincode s n p)) = state s"
  "history (snd (mockPeerChaincode s n p)) = history s"
  "privateCollections (snd (mockPeerChaincode s n p)) = privateCollections s"
  "Map_prototype (snd (mockPeerChaincode s n p)) = Map_prototype s"
  "Object_prototype (snd (mockPeerChaincode s n p)) = Object_prototype s"
  "outside_model s \<Longrightarrow> outside_model (snd (mockPeerChaincode s n p))"
  "txID (snd (mockPeerChaincode s n p)) = txID s"
  by (auto simp: mockPeerChaincode_def split: assignment.splits)

lemma getFunctionAndParameters_frame:
  "state (snd (getFunctionAndParameters s)) = state s"
  "history (snd (getFunctionAndParameters s)) = history s"
  "privateCollections (snd (getFunctionAndParameters s)) = privateCollections s"
  "Map_prototype (snd (getFunctionAndParameters s)) = Map_prototype s"
  "Object_prototype (snd (getFunctionAndParameters s)) = Object_prototype s"
  "outside_model (snd (getFunctionAndParameters s)) = outside_model s"
  "txID (snd (getFunctionAndParameters s)) = txID s"
  by (simp_all add: getFunctionAndParameters_def split: option.splits)

lemma setEvent_frame:
  "state (snd (setEvent s n p)) = state s"
  "history (snd (setEvent s n p)) = history s"
  "privateCollections (snd (setEvent s n p)) = privateCollections s"
  "Map_prototype (snd (setEvent s n p)) = Map_prototype s"
  "Object_prototype (snd (setEvent s n p)) = Object_prototype s"
  "outside_model s \<Longrightarrow> outside_model (snd (setEvent s n p))"
  "txID (snd (setEvent s n p)) = txID s"
  by (auto simp: setEvent_def split: assignment.splits)

lemmas simple_calls =
  mockTransactionStart_def mockTransactionEnd_def setCreator_def
  setSignedProposal_def setTxTimestamp_def

lemmas call_frames =
  simple_calls putState_frame deleteState_frame putPrivateData_frame deletePrivateData_frame
  invokeChaincode_frame mockPeerChaincode_frame getFunctionAndParameters_frame setEvent_frame



lemma perform_outside_model: "outside_model s \<Longrightarrow> outside_model (perform c s)"
  by (cases c) (simp_all add: call_frames)



lemma perform_history_None:
  "\<not> is_putState_of k c \<Longrightarrow> prop_get (history s) k = None
   \<Longrightarrow> prop_get (history (perform c s)) k = None"
proof (cases c)
  case (DeleteState now k')
  assume h: "prop_get (history s) k = None"
  show ?thesis
  proof (cases "k' = k")
    case True
    with h DeleteState show ?thesis by (simp add: deleteState_frame)
  next
    case False
    with h DeleteState show ?thesis by (simp add: deleteState_frame)
  qed
qed (simp_all add: call_frames)

subsection \<open>Sequences of calls and reads\<close>

lemma inherited_update_more:
  "inherited (s\<lparr> txID := a \<rparr>) k = inherited s k"
  "inherited (s\<lparr> signedProposal := b \<rparr>) k = inherited s k"
  "inherited (s\<lparr> txTimestamp := c \<rparr>) k = inherited s k"
  "inherited (s\<lparr> transientMap := d \<rparr>) k = inherited s k"
  "inherited (s\<lparr> mspId := e \<rparr>) k = inherited s k"
  by (rule inherited_cong; simp)+

lemma inherited_new_ChaincodeMockStub:
  "inherited new_ChaincodeMockStub k =
     (if k = ''__proto__'' then Prototype ''Map.prototype''
      else if k = ''size'' then Number 0
      else if k = ''constructor'' then Function ''Map''
      else if k \<in> set [''clear'', ''delete'', ''entries'', ''forEach'', ''get'', ''has'', ''keys'',
                        ''set'', ''values'']
      then Function (''Map.prototype.'' @ k)
      else if k \<in> set [''__defineGetter__'', ''__defineSetter__'', ''__lookupGetter__'',
                        ''__lookupSetter__'', ''hasOwnProperty'', ''isPrototypeOf'',
                        ''propertyIsEnumerable'', ''toLocaleString'', ''toString'', ''valueOf'']
      then Function (''Object.prototype.'' @ k)
      else Undefined)"
  by (simp add: inherited_def new_ChaincodeMockStub_def builtin_Map_prototype_get
        builtin_Object_prototype_get)

lemma inherited_started:
  "inherited (mockTransactionStart s txid tm) k = inherited s k"
  by (simp add: mockTransactionStart_def inherited_update_more)







lemma run_history_None:
  "\<forall>c\<in>set cs. \<not> is_putState_of k c \<Longrightarrow> prop_get (history s) k = None
   \<Longrightarrow> prop_get (history (run cs s)) k = None"
  by (induction cs arbitrary: s) (simp_all add: perform_history_None)

lemma putState_started_plain:
  assumes "inherited s k = Undefined"
  shows "putState now (mockTransactionStart s ''t1'' tm) k v =
     (Inr (), (mockTransactionStart s ''t1'' tm)
        \<lparr> state := prop_set (state s) k v,
          history := prop_set (history s) k
            ((case prop_get (history s) k of None \<Rightarrow> [] | Some h \<Rightarrow> h)
             @ [\<lparr> is_delete = False, km_value = Buf v, timestamp = now,
                   tx_id = Some ''t1'' \<rparr>]) \<rparr>)"
proof -
  have ne: "\<not> txID_is_empty (mockTransactionStart s ''t1'' tm)"
    by (simp add: txID_is_empty_def mockTransactionStart_def)
  have i: "inherited (mockTransactionStart s ''t1'' tm) k = Undefined"
    using assms by (simp add: inherited_started)
  show ?thesis
    unfolding putState_plain [OF ne i] by (simp add: mockTransactionStart_def)
qed

lemma deleteState_own_log:
  assumes "prop_get (history s) k = Some h"
  shows "deleteState now s k =
     (Inr (), s\<lparr> history := prop_set (history s) k
                    (h @ [\<lparr> is_delete = True, km_value = getState s k,
                            timestamp = now, tx_id = txID s \<rparr>]),
               state := prop_delete (state s) k \<rparr>)"
  using assms by (simp add: deleteState_def Let_def push_record_def history_get_def)


subsection \<open>Evaluating the examples\<close>

lemma started:
  "txID (mockTransactionStart new_ChaincodeMockStub ''t1'' None) = Some ''t1''"
  "state (mockTransactionStart new_ChaincodeMockStub ''t1'' None) = new_Map"
  "privateCollections (mockTransactionStart new_ChaincodeMockStub ''t1'' None) = new_Map"
  "history (mockTransactionStart new_ChaincodeMockStub ''t1'' None) = new_Map"
  "invokables (mockTransactionStart new_ChaincodeMockStub ''t1'' None) = new_Map"
  "\<not> outside_model (mockTransactionStart new_ChaincodeMockStub ''t1'' None)"
  "\<not> txID_is_empty (mockTransactionStart new_ChaincodeMockStub ''t1'' None)"
  by (simp_all add: mockTransactionStart_def new_ChaincodeMockStub_def txID_is_empty_def)

lemma putState_started_state:
  assumes "inherited s k = Undefined" and "txID s = Some t" and "t \<noteq> []"
  shows "state (snd (putState now s k v)) = prop_set (state s) k v
       \<and> txID (snd (putState now s k v)) = Some t
       \<and> (\<forall>k'. inherited (snd (putState now s k v)) k' = inherited s k')"
proof -
  from assms(2,3) have ne: "\<not> txID_is_empty s" by (simp add: txID_is_empty_def)
  show ?thesis
    using assms(2) by (simp add: putState_plain [OF ne assms(1)] inherited_update)
qed

lemma getStateByRange_key_list:
  "map key (items (getStateByRange s startKey endKey))
     = filter (in_range startKey endKey) (Object_keys (state s))"
  by (simp add: getStateByRange_def comp_def)

lemma getStateByRange_value_list:
  "map kv_value (items (getStateByRange s startKey endKey))
     = map (getState s) (map key (items (getStateByRange s startKey endKey)))"
  by (simp add: getStateByRange_def comp_def)

lemma run_ba_state:
  "state (run [MockTransactionStart ''t1'' None, PutState 0 ''b'' [1], PutState 0 ''a'' [2]]
            new_ChaincodeMockStub)
     = prop_set (prop_set new_Map ''b'' [1]) ''a'' [2]"
proof -
  have b: "inherited new_ChaincodeMockStub ''b'' = Undefined"
    by (simp add: inherited_new_ChaincodeMockStub)
  let ?s1 = "snd (putState 0 (mockTransactionStart new_ChaincodeMockStub ''t1'' None) ''b'' [1])"
  have s1: "state ?s1 = prop_set new_Map ''b'' [1]"
    unfolding putState_started_plain [OF b] by (simp add: new_ChaincodeMockStub_def)
  have ne: "\<not> txID_is_empty ?s1"
    by (simp add: txID_is_empty_def putState_frame mockTransactionStart_def)
  have "inherited ?s1 ''a'' = inherited new_ChaincodeMockStub ''a''"
    by (rule inherited_cong) (simp_all add: putState_frame mockTransactionStart_def)
  then have a: "inherited ?s1 ''a'' = Undefined"
    by (simp add: inherited_new_ChaincodeMockStub)
  show ?thesis
    using s1 by (simp add: putState_plain [OF ne a])
qed

lemma run_docs_state:
  "state (run [MockTransactionStart ''t1'' None,
            PutState 0 (CHR 0x00 # ''doc'' @ CHR 0x00 # ''b'' @ [CHR 0x00]) [1],
            PutState 0 (CHR 0x00 # ''doc'' @ CHR 0x00 # ''a'' @ CHR 0x00 # ''x'' @ [CHR 0x00]) [2],
            PutState 0 ''plain'' [3]] new_ChaincodeMockStub)
   = prop_set (prop_set (prop_set new_Map
        (CHR 0x00 # ''doc'' @ CHR 0x00 # ''b'' @ [CHR 0x00]) [1])
        (CHR 0x00 # ''doc'' @ CHR 0x00 # ''a'' @ CHR 0x00 # ''x'' @ [CHR 0x00]) [2])
        ''plain'' [3]"
proof -
  let ?k1 = "CHR 0x00 # ''doc'' @ CHR 0x00 # ''b'' @ [CHR 0x00]"
  let ?k2 = "CHR 0x00 # ''doc'' @ CHR 0x00 # ''a'' @ CHR 0x00 # ''x'' @ [CHR 0x00]"
  let ?s0 = "mockTransactionStart new_ChaincodeMockStub ''t1'' None"
  let ?s1 = "snd (putState 0 ?s0 ?k1 [1])"
  let ?s2 = "snd (putState 0 ?s1 ?k2 [2])"
  have t: "''t1'' \<noteq> []" by simp
  have i0: "inherited ?s0 k = inherited new_ChaincodeMockStub k" for k
    by (rule inherited_started)
  have a1: "inherited ?s0 ?k1 = Undefined"
    unfolding i0 by (simp add: inherited_new_ChaincodeMockStub)
  note p1 = putState_started_state [OF a1 started(1) t, of 0 "[1]"]
  have a2: "inherited ?s1 ?k2 = Undefined"
    using p1 unfolding i0 by (simp add: inherited_new_ChaincodeMockStub)
  note p2 = putState_started_state [OF a2 p1 [THEN conjunct2, THEN conjunct1] t, of 0 "[2]"]
  have a3: "inherited ?s2 ''plain'' = Undefined"
    using p1 p2 unfolding i0 by (simp add: inherited_new_ChaincodeMockStub)
  note p3 = putState_started_state [OF a3 p2 [THEN conjunct2, THEN conjunct1] t, of 0 "[3]"]
  from p1 p2 p3 show ?thesis by (simp add: started)
qed








lemma putState_idle_rejects:
  "putState now (mockTransactionEnd s uuid) k v
     = (Inl (Rejected putState_msg), mockTransactionEnd s uuid)"
  by (simp add: putState_rejected txID_is_empty_def mockTransactionEnd_def)

lemma getState_needs_no_transaction: "getState (s\<lparr> txID := t \<rparr>) k = getState s k"
  by (simp add: getState_def inherited_update_more split: option.splits)

lemma getFunctionAndParameters_result:
  "args s = Some (f # ps) \<Longrightarrow>
   fst (getFunctionAndParameters s) = Inr \<lparr> fcn = f, params = ps \<rparr>"
  by (simp add: getFunctionAndParameters_def getStringArgs_def)

section \<open>Claims\<close>

text \<open>
  C1, as the code has it. \<^verbatim>\<open>getStateByRange(startKey, endKey)\<close> returns exactly the
  live keys \<open>k\<close> (the own keys of the state object) with \<open>startKey \<le> k \<le> endKey\<close> in
  the byte-wise lexicographic order (all live keys when both bounds are empty), each key
  once and with the value \<^verbatim>\<open>getState\<close> reads for it. The iterator yields them in the
  order in which \<^verbatim>\<open>Object.keys\<close> lists the keys of the state object, which is the order
  of creation for keys that are not array indices; the scan does not sort.
\<close>

theorem getStateByRange_keys:
  "map key (items (getStateByRange s startKey endKey))
     = filter (\<lambda>k. (startKey \<le> k \<and> k \<le> endKey) \<or> (startKey = [] \<and> endKey = []))
         (Object_keys (state s))
   \<and> distinct (map key (items (getStateByRange s startKey endKey)))
   \<and> set (map key (items (getStateByRange s startKey endKey)))
       = {k. prop_get (state s) k \<noteq> None
             \<and> ((startKey \<le> k \<and> k \<le> endKey) \<or> (startKey = [] \<and> endKey = []))}
   \<and> map kv_value (items (getStateByRange s startKey endKey))
       = map (getState s) (map key (items (getStateByRange s startKey endKey)))"
proof -
  have f: "in_range startKey endKey
             = (\<lambda>k. (startKey \<le> k \<and> k \<le> endKey) \<or> (startKey = [] \<and> endKey = []))"
    by (rule ext) (rule in_range_iff)
  have k: "map key (items (getStateByRange s startKey endKey))
             = filter (\<lambda>k. (startKey \<le> k \<and> k \<le> endKey) \<or> (startKey = [] \<and> endKey = []))
                 (Object_keys (state s))"
    unfolding getStateByRange_key_list f ..
  have d: "distinct (map key (items (getStateByRange s startKey endKey)))"
    unfolding k by (simp add: distinct_Object_keys)
  have m: "set (map key (items (getStateByRange s startKey endKey)))
       = {k. prop_get (state s) k \<noteq> None
             \<and> ((startKey \<le> k \<and> k \<le> endKey) \<or> (startKey = [] \<and> endKey = []))}"
    unfolding k by (auto simp: set_Object_keys)
  from k d m getStateByRange_value_list [of s startKey endKey] show ?thesis by (intro conjI)
qed

theorem getStateByRange_keys_witness:
  "map key (items (getStateByRange
      (run [MockTransactionStart ''t1'' None, PutState 0 ''b'' [1], PutState 0 ''a'' [2]]
         new_ChaincodeMockStub) ''a'' ''az'')) = [''a'']
   \<and> map kv_value (items (getStateByRange
      (run [MockTransactionStart ''t1'' None, PutState 0 ''b'' [1], PutState 0 ''a'' [2]]
         new_ChaincodeMockStub) ''a'' ''az'')) = [Buf [2]]"
proof -
  let ?s = "run [MockTransactionStart ''t1'' None, PutState 0 ''b'' [1], PutState 0 ''a'' [2]]
         new_ChaincodeMockStub"
  have k: "Object_keys (state ?s) = [''b'', ''a'']"
    unfolding run_ba_state
    by (simp add: Object_keys_def own_names_prop_set own_names_new_Map
          is_array_index_def is_digit_def)
  have g: "getState ?s ''a'' = Buf [2]"
    unfolding getState_def run_ba_state by (simp add: prop_get_set)
  note t = getStateByRange_keys [of ?s "''a''" "''az''"]
  from t have "map key (items (getStateByRange ?s ''a'' ''az''))
     = filter (\<lambda>k. (''a'' \<le> k \<and> k \<le> ''az'') \<or> (''a'' = [] \<and> ''az'' = []))
         (Object_keys (state ?s))"
    by (rule conjunct1)
  then have 1: "map key (items (getStateByRange ?s ''a'' ''az'')) = [''a'']"
    unfolding k by simp
  from t [THEN conjunct2, THEN conjunct2, THEN conjunct2]
  have 2: "map kv_value (items (getStateByRange ?s ''a'' ''az'')) = [Buf [2]]"
    unfolding 1 using g by simp
  from 1 2 show ?thesis by (rule conjI)
qed

text \<open>
  C1 as stated promises ascending byte order. After \<^verbatim>\<open>putState("b", ..)\<close> and then
  \<^verbatim>\<open>putState("a", ..)\<close> in one transaction, the scan of everything yields \<open>b\<close> before
  \<open>a\<close>.
\<close>

theorem getStateByRange_order_counterexample:
  "map key (items (getStateByRange
      (run [MockTransactionStart ''t1'' None, PutState 0 ''b'' [1], PutState 0 ''a'' [2]]
         new_ChaincodeMockStub) [] [])) = [''b'', ''a'']
   \<and> \<not> sorted (map key (items (getStateByRange
      (run [MockTransactionStart ''t1'' None, PutState 0 ''b'' [1], PutState 0 ''a'' [2]]
         new_ChaincodeMockStub) [] [])))"
proof -
  have "map key (items (getStateByRange
      (run [MockTransactionStart ''t1'' None, PutState 0 ''b'' [1], PutState 0 ''a'' [2]]
         new_ChaincodeMockStub) [] [])) = [''b'', ''a'']"
    unfolding getStateByRange_key_list run_ba_state
    by (simp add: Object_keys_def own_names_prop_set own_names_new_Map
          is_array_index_def is_digit_def in_range_def)
  then show ?thesis by simp
qed

text \<open>
  C2 at a freshly constructed stub. \<^verbatim>\<open>txID\<close> is \<^verbatim>\<open>undefined\<close> there, the guard
  \<^verbatim>\<open>this.txID == ''\<close> is false, and \<^verbatim>\<open>putState\<close> resolves: it stores the value and
  appends a history record whose transaction id is \<^verbatim>\<open>undefined\<close>. (After
  \<^verbatim>\<open>mockTransactionEnd\<close> the guard holds and \<^verbatim>\<open>putState\<close> rejects and changes nothing:
  \<open>putState_idle_rejects\<close>.)
\<close>

theorem putState_fresh_stub_resolves:
  "txID new_ChaincodeMockStub = None
   \<and> fst (putState 0 new_ChaincodeMockStub ''k'' [1]) = Inr ()
   \<and> getState new_ChaincodeMockStub ''k'' = Undefined
   \<and> getState (snd (putState 0 new_ChaincodeMockStub ''k'' [1])) ''k'' = Buf [1]
   \<and> prop_get (history new_ChaincodeMockStub) ''k'' = None
   \<and> prop_get (history (snd (putState 0 new_ChaincodeMockStub ''k'' [1]))) ''k''
       = Some [\<lparr> is_delete = False, km_value = Buf [1], timestamp = 0, tx_id = None \<rparr>]"
proof -
  have ne: "\<not> txID_is_empty new_ChaincodeMockStub"
    by (simp add: txID_is_empty_def new_ChaincodeMockStub_def)
  have i: "inherited new_ChaincodeMockStub ''k'' = Undefined"
    by (simp add: inherited_new_ChaincodeMockStub)
  have h: "prop_get (history new_ChaincodeMockStub) ''k'' = None"
    by (simp add: new_ChaincodeMockStub_def prop_get_new_Map)
  have g: "getState new_ChaincodeMockStub ''k'' = Undefined"
    using i by (simp add: getState_def new_ChaincodeMockStub_def prop_get_new_Map)
  have t: "txID new_ChaincodeMockStub = None"
    by (simp add: new_ChaincodeMockStub_def)
  show ?thesis
    using h g t by (simp add: putState_plain [OF ne i] getState_def prop_get_set)
qed




text \<open>
  C4 at a key that was never written. \<^verbatim>\<open>deleteState\<close> throws where it appends to the
  missing history log, so no delete record exists afterwards. (For a key with a history
  entry the claim holds: \<open>deleteState_with_history\<close>.)
\<close>

theorem deleteState_unwritten_key_throws:
  "getState (mockTransactionStart new_ChaincodeMockStub ''t1'' None) ''k'' = Undefined
   \<and> deleteState 0 (mockTransactionStart new_ChaincodeMockStub ''t1'' None) ''k''
       = (Inl TypeError, mockTransactionStart new_ChaincodeMockStub ''t1'' None)
   \<and> prop_get (history (snd (deleteState 0
         (mockTransactionStart new_ChaincodeMockStub ''t1'' None) ''k''))) ''k'' = None"
proof -
  let ?s = "mockTransactionStart new_ChaincodeMockStub ''t1'' None"
  have h: "prop_get (history ?s) ''k'' = None"
    by (simp add: mockTransactionStart_def new_ChaincodeMockStub_def prop_get_new_Map)
  have i: "inherited ?s ''k'' = Undefined"
    by (simp add: inherited_started inherited_new_ChaincodeMockStub)
  have st: "prop_get (state ?s) ''k'' = None"
    by (simp add: mockTransactionStart_def new_ChaincodeMockStub_def prop_get_new_Map)
  have g: "getState ?s ''k'' = Undefined"
    unfolding getState_def st using i by simp
  from h have d: "deleteState 0 ?s ''k'' = (Inl TypeError, ?s)" by (rule deleteState_frame)
  from g d h show ?thesis by simp
qed



text \<open>
  C6 at the argument list \<open>["fn", "a", "b"]\<close>. \<^verbatim>\<open>getFunctionAndParameters\<close> returns
  \<open>fn\<close> and \<open>["a", "b"]\<close>, and removes \<open>fn\<close> from the stored argument list:
  \<^verbatim>\<open>getArgs\<close> then gives \<open>["a", "b"]\<close>, and a second call returns \<open>a\<close> and
  \<open>["b"]\<close>.
\<close>

theorem getFunctionAndParameters_shortens_args:
  "getArgs (new_ChaincodeMockStub\<lparr> args := Some [''fn'', ''a'', ''b''] \<rparr>)
     = Some [''fn'', ''a'', ''b'']
   \<and> fst (getFunctionAndParameters (new_ChaincodeMockStub\<lparr> args := Some [''fn'', ''a'', ''b''] \<rparr>))
     = Inr \<lparr> fcn = ''fn'', params = [''a'', ''b''] \<rparr>
   \<and> getArgs (snd (getFunctionAndParameters
        (new_ChaincodeMockStub\<lparr> args := Some [''fn'', ''a'', ''b''] \<rparr>)))
     = Some [''a'', ''b'']
   \<and> fst (getFunctionAndParameters (snd (getFunctionAndParameters
        (new_ChaincodeMockStub\<lparr> args := Some [''fn'', ''a'', ''b''] \<rparr>))))
     = Inr \<lparr> fcn = ''a'', params = [''b''] \<rparr>"
  by (simp add: getFunctionAndParameters_def getStringArgs_def getArgs_def)




text \<open>
  C8, as the code has it. For every object type and attribute list,
  \<^verbatim>\<open>getStateByPartialCompositeKey\<close> throws what \<^verbatim>\<open>createCompositeKey\<close> throws, and
  otherwise returns exactly \<^verbatim>\<open>getStateByRange(p, p + MAX_UNICODE_RUNE_VALUE)\<close> for the
  composite key \<open>p\<close>, whatever \<^verbatim>\<open>createCompositeKey\<close> and the sentinel are. The keys
  of that scan are the live keys that start with \<open>p\<close> and whose remainder after \<open>p\<close> is
  at most the sentinel in the key order: not all keys that share the prefix.
\<close>

theorem getStateByPartialCompositeKey_range:
  "(\<forall>e. createCompositeKey ck objectType attributes = Inl e \<longrightarrow>
          getStateByPartialCompositeKey ck s objectType attributes = Inl e)
   \<and> (\<forall>p. createCompositeKey ck objectType attributes = Inr p \<longrightarrow>
          getStateByPartialCompositeKey ck s objectType attributes
            = Inr (getStateByRange s p (p @ MAX_UNICODE_RUNE_VALUE ck))
          \<and> set (map key (items (getStateByRange s p (p @ MAX_UNICODE_RUNE_VALUE ck))))
            = {k. prop_get (state s) k \<noteq> None
                  \<and> (\<exists>r. k = p @ r
                        \<and> (r \<le> MAX_UNICODE_RUNE_VALUE ck
                            \<or> (p = [] \<and> MAX_UNICODE_RUNE_VALUE ck = [])))})"
proof (intro conjI allI impI)
  fix e assume "createCompositeKey ck objectType attributes = Inl e"
  then show "getStateByPartialCompositeKey ck s objectType attributes = Inl e"
    by (simp add: getStateByPartialCompositeKey_def)
next
  fix p assume "createCompositeKey ck objectType attributes = Inr p"
  then show "getStateByPartialCompositeKey ck s objectType attributes
            = Inr (getStateByRange s p (p @ MAX_UNICODE_RUNE_VALUE ck))"
    by (simp add: getStateByPartialCompositeKey_def)
next
  fix p
  let ?m = "MAX_UNICODE_RUNE_VALUE ck"
  have "set (map key (items (getStateByRange s p (p @ ?m))))
          = {k. prop_get (state s) k \<noteq> None \<and> in_range p (p @ ?m) k}"
    by (auto simp: getStateByRange_def set_Object_keys)
  moreover have "in_range p (p @ ?m) k \<longleftrightarrow> (\<exists>r. k = p @ r \<and> (r \<le> ?m \<or> (p = [] \<and> ?m = [])))" for k
    unfolding in_range_iff prefix_range by auto
  ultimately show "set (map key (items (getStateByRange s p (p @ ?m))))
            = {k. prop_get (state s) k \<noteq> None \<and> (\<exists>r. k = p @ r \<and> (r \<le> ?m \<or> (p = [] \<and> ?m = [])))}"
    by simp
qed

theorem getStateByPartialCompositeKey_range_witness:
  "getStateByPartialCompositeKey example_CompositeKeys
      (run [MockTransactionStart ''t1'' None,
            PutState 0 (CHR 0x00 # ''doc'' @ CHR 0x00 # ''b'' @ [CHR 0x00]) [1],
            PutState 0 (CHR 0x00 # ''doc'' @ CHR 0x00 # ''a'' @ CHR 0x00 # ''x'' @ [CHR 0x00]) [2],
            PutState 0 ''plain'' [3]] new_ChaincodeMockStub)
      ''doc'' [''a'']
     = Inr (MockStateQueryIterator
         [\<lparr> key = CHR 0x00 # ''doc'' @ CHR 0x00 # ''a'' @ CHR 0x00 # ''x'' @ [CHR 0x00],
             kv_value = Buf [2] \<rparr>])
   \<and> getStateByPartialCompositeKey example_CompositeKeys
      (run [MockTransactionStart ''t1'' None,
            PutState 0 (CHR 0x00 # ''doc'' @ CHR 0x00 # ''b'' @ [CHR 0x00]) [1],
            PutState 0 (CHR 0x00 # ''doc'' @ CHR 0x00 # ''a'' @ CHR 0x00 # ''x'' @ [CHR 0x00]) [2],
            PutState 0 ''plain'' [3]] new_ChaincodeMockStub)
      [] [''a'']
     = Inl (Error ''InvalidKeyComponent'')"
proof -
  let ?s = "run [MockTransactionStart ''t1'' None,
            PutState 0 (CHR 0x00 # ''doc'' @ CHR 0x00 # ''b'' @ [CHR 0x00]) [1],
            PutState 0 (CHR 0x00 # ''doc'' @ CHR 0x00 # ''a'' @ CHR 0x00 # ''x'' @ [CHR 0x00]) [2],
            PutState 0 ''plain'' [3]] new_ChaincodeMockStub"
  let ?p = "CHR 0x00 # ''doc'' @ CHR 0x00 # ''a'' @ [CHR 0x00]"
  have c: "createCompositeKey example_CompositeKeys ''doc'' [''a''] = Inr ?p"
    by (simp add: example_CompositeKeys_def example_createCompositeKey_def)
  have e: "createCompositeKey example_CompositeKeys [] [''a''] = Inl (Error ''InvalidKeyComponent'')"
    by (simp add: example_CompositeKeys_def example_createCompositeKey_def)
  have r: "getStateByRange ?s ?p (?p @ MAX_UNICODE_RUNE_VALUE example_CompositeKeys)
     = MockStateQueryIterator
         [\<lparr> key = CHR 0x00 # ''doc'' @ CHR 0x00 # ''a'' @ CHR 0x00 # ''x'' @ [CHR 0x00],
             kv_value = Buf [2] \<rparr>]"
    unfolding getStateByRange_def getState_def run_docs_state
    by (simp add: example_CompositeKeys_def
          Object_keys_def own_names_prop_set own_names_new_Map is_array_index_def is_digit_def
          in_range_iff prop_get_set)
  from getStateByPartialCompositeKey_range [of example_CompositeKeys "''doc''" "[''a'']" ?s] c r
  have 1: "getStateByPartialCompositeKey example_CompositeKeys ?s ''doc'' [''a'']
     = Inr (MockStateQueryIterator
         [\<lparr> key = CHR 0x00 # ''doc'' @ CHR 0x00 # ''a'' @ CHR 0x00 # ''x'' @ [CHR 0x00],
             kv_value = Buf [2] \<rparr>])"
    by simp
  from getStateByPartialCompositeKey_range [of example_CompositeKeys "[]" "[''a'']" ?s] e
  have 2: "getStateByPartialCompositeKey example_CompositeKeys ?s [] [''a'']
     = Inl (Error ''InvalidKeyComponent'')"
    by simp
  from 1 2 show ?thesis by (rule conjI)
qed

text \<open>
  C8 as stated promises all keys sharing the composite-key prefix. With the example
  composite keys, the live key of the object type \<open>doc\<close> with the one attribute
  \<open>U+10FFFF\<close> starts with the composite key of \<open>doc\<close> with no attributes, and the scan
  for \<open>doc\<close> with no attributes returns nothing: the remainder of the key is the
  sentinel followed by the delimiter, which is above the sentinel.
\<close>

theorem getStateByPartialCompositeKey_prefix_counterexample:
  "createCompositeKey example_CompositeKeys ''doc'' [] = Inr (CHR 0x00 # ''doc'' @ [CHR 0x00])
   \<and> createCompositeKey example_CompositeKeys ''doc'' [[CHR 0xF4, CHR 0x8F, CHR 0xBF, CHR 0xBF]]
       = Inr ((CHR 0x00 # ''doc'' @ [CHR 0x00]) @ [CHR 0xF4, CHR 0x8F, CHR 0xBF, CHR 0xBF, CHR 0x00])
   \<and> getState (run [MockTransactionStart ''t1'' None,
          PutState 0 ((CHR 0x00 # ''doc'' @ [CHR 0x00])
                        @ [CHR 0xF4, CHR 0x8F, CHR 0xBF, CHR 0xBF, CHR 0x00]) [1]]
          new_ChaincodeMockStub)
        ((CHR 0x00 # ''doc'' @ [CHR 0x00]) @ [CHR 0xF4, CHR 0x8F, CHR 0xBF, CHR 0xBF, CHR 0x00])
       = Buf [1]
   \<and> getStateByPartialCompositeKey example_CompositeKeys
        (run [MockTransactionStart ''t1'' None,
          PutState 0 ((CHR 0x00 # ''doc'' @ [CHR 0x00])
                        @ [CHR 0xF4, CHR 0x8F, CHR 0xBF, CHR 0xBF, CHR 0x00]) [1]]
          new_ChaincodeMockStub)
        ''doc'' []
       = Inr (MockStateQueryIterator [])"
proof -
  let ?K = "(CHR 0x00 # ''doc'' @ [CHR 0x00]) @ [CHR 0xF4, CHR 0x8F, CHR 0xBF, CHR 0xBF, CHR 0x00]"
  let ?b = "mockTransactionStart new_ChaincodeMockStub ''t1'' None"
  let ?s = "run [MockTransactionStart ''t1'' None, PutState 0 ?K [1]] new_ChaincodeMockStub"
  have t: "''t1'' \<noteq> []" by simp
  have a: "inherited ?b ?K = Undefined"
    unfolding inherited_started by (simp add: inherited_new_ChaincodeMockStub)
  note p = putState_started_state [OF a started(1) t, of 0 "[1]"]
  from p have st: "state ?s = prop_set new_Map ?K [1]" by (simp add: started)
  have 1: "createCompositeKey example_CompositeKeys ''doc'' [] = Inr (CHR 0x00 # ''doc'' @ [CHR 0x00])"
    by (simp add: example_CompositeKeys_def example_createCompositeKey_def)
  have 2: "createCompositeKey example_CompositeKeys ''doc'' [[CHR 0xF4, CHR 0x8F, CHR 0xBF, CHR 0xBF]]
       = Inr ?K"
    by (simp add: example_CompositeKeys_def example_createCompositeKey_def)
  have 3: "getState ?s ?K = Buf [1]"
    unfolding getState_def st by (simp add: prop_get_set)
  have 4: "getStateByPartialCompositeKey example_CompositeKeys ?s ''doc'' []
       = Inr (MockStateQueryIterator [])"
    unfolding getStateByPartialCompositeKey_def getStateByRange_def st
    by (simp add: example_CompositeKeys_def example_createCompositeKey_def
          Object_keys_def own_names_prop_set own_names_new_Map is_array_index_def is_digit_def
          in_range_iff)
  from 1 2 3 4 show ?thesis by (intro conjI)
qed




text \<open>
  C10. \<^verbatim>\<open>deleteState\<close> on a key without a history entry does not resolve: appending to
  the missing log throws, and the stub is left as it was. That is the case of every key
  that no \<^verbatim>\<open>putState\<close> has written since the stub was constructed. \<^verbatim>\<open>deleteState\<close>
  resolves exactly when the key has a history entry.
\<close>

theorem deleteState_never_written:
  "(prop_get (history s) k = None \<longrightarrow> deleteState now s k = (Inl TypeError, s))
   \<and> ((\<forall>c\<in>set cs. \<not> is_putState_of k c) \<longrightarrow>
        deleteState now (run cs new_ChaincodeMockStub) k = (Inl TypeError, run cs new_ChaincodeMockStub))
   \<and> ((\<exists>s'. deleteState now s k = (Inr (), s')) \<longleftrightarrow> prop_get (history s) k \<noteq> None)"
proof (intro conjI impI)
  assume "prop_get (history s) k = None"
  then show "deleteState now s k = (Inl TypeError, s)" by (rule deleteState_frame)
next
  assume "\<forall>c\<in>set cs. \<not> is_putState_of k c"
  then have "prop_get (history (run cs new_ChaincodeMockStub)) k = None"
    by (rule run_history_None) (simp add: new_ChaincodeMockStub_def prop_get_new_Map)
  then show "deleteState now (run cs new_ChaincodeMockStub) k
               = (Inl TypeError, run cs new_ChaincodeMockStub)"
    by (rule deleteState_frame)
next
  show "(\<exists>s'. deleteState now s k = (Inr (), s')) \<longleftrightarrow> prop_get (history s) k \<noteq> None"
    by (cases "prop_get (history s) k") (simp_all add: deleteState_frame deleteState_own_log)
qed

theorem deleteState_never_written_witness:
  "deleteState 3 (run [MockTransactionStart ''t1'' None, PutState 1 ''a'' [1]] new_ChaincodeMockStub) ''k''
     = (Inl TypeError, run [MockTransactionStart ''t1'' None, PutState 1 ''a'' [1]] new_ChaincodeMockStub)
   \<and> deleteState 3 new_ChaincodeMockStub ''k'' = (Inl TypeError, new_ChaincodeMockStub)"
proof -
  let ?cs = "[MockTransactionStart ''t1'' None, PutState 1 ''a'' [1]]"
  have "\<forall>c\<in>set ?cs. \<not> is_putState_of ''k'' c" by simp
  moreover have "prop_get (history new_ChaincodeMockStub) ''k'' = None"
    by (simp add: new_ChaincodeMockStub_def prop_get_new_Map)
  ultimately show ?thesis
    using deleteState_never_written [of new_ChaincodeMockStub "''k''" 3 ?cs] by blast
qed


end
